theory Spec2Isabelle
  imports Complex_Main
begin

section \<open>staticmap-mcp: projection of geographic points and label placement\<close>

text \<open>
  A shallow embedding of \<^verbatim>\<open>src/staticmap_mcp/server.py\<close>. Python ints are \<^typ>\<open>int\<close>.
  Python floats are IEEE 754 binary64 values: a finite float is the real number it
  denotes, an arithmetic operation is the exact operation followed by rounding to the
  nearest double (ties to even), and the C library's \<open>tan\<close>, \<open>cos\<close> and \<open>log\<close> are
  parameters. An exception is a value of \<open>py_error\<close>, returned on the left of a sum.
\<close>

subsection \<open>Errors and the map object\<close>

datatype py_error =
  IndexError | KeyError | ZeroDivisionError | ValueError | OverflowError | RuntimeError | OSError

text \<open>Sequencing of steps that may raise: the first exception ends the computation.\<close>

definition ebind :: "'e + 'a \<Rightarrow> ('a \<Rightarrow> 'e + 'b) \<Rightarrow> 'e + 'b" where
  "ebind r f = (case r of Inl e \<Rightarrow> Inl e | Inr v \<Rightarrow> f v)"

text \<open>
  The fields of the \<^verbatim>\<open>StaticMap\<close> object that \<^verbatim>\<open>_geo_to_pixel\<close> reads:
  \<^verbatim>\<open>m.zoom\<close>, \<^verbatim>\<open>m.tile_size\<close>, \<^verbatim>\<open>m.x_center\<close>, \<^verbatim>\<open>m.y_center\<close>,
  \<^verbatim>\<open>m.width\<close> and \<^verbatim>\<open>m.height\<close>. The centre is a pair of finite floats.
\<close>

record static_map =
  width :: int
  height :: int
  tile_size :: int
  zoom :: int
  x_center :: real
  y_center :: real

subsection \<open>Python floats\<close>

text \<open>
  A float is finite, an infinity or not a number. The two zeros are not told apart:
  the only operation of this program that could tell is a division by zero, which
  raises for both.
\<close>

datatype pyfloat = Fin real | PInf | NInf | NaN

text \<open>The power of two \<open>2^z\<close> for an integer exponent of either sign.\<close>

definition pow2 :: "int \<Rightarrow> real" where
  "pow2 z = (if 0 \<le> z then 2 ^ nat z else 1 / 2 ^ nat (- z))"

text \<open>Rounding to the nearest integer, a tie going to the even one.\<close>

definition rhe :: "real \<Rightarrow> int" where
  "rhe r = (let f = \<lfloor>r\<rfloor>; d = r - real_of_int f
            in if d < 1 / 2 then f else if 1 / 2 < d then f + 1 else if even f then f else f + 1)"

text \<open>
  The binary exponent of a double near \<open>x\<close> (at least -1022, where the subnormal
  numbers begin), the spacing of the doubles there (53 significant bits), and the
  rounding of a real number to the nearest double with an unbounded exponent range.
\<close>

definition expo :: "real \<Rightarrow> int" where
  "expo x = (if x = 0 then - 1022 else max \<lfloor>log 2 \<bar>x\<bar>\<rfloor> (- 1022))"

definition ulp :: "real \<Rightarrow> real" where
  "ulp x = pow2 (expo x - 52)"

definition rne :: "real \<Rightarrow> real" where
  "rne x = real_of_int (rhe (x / ulp x)) * ulp x"

text \<open>Rounding to a double: a result of magnitude \<open>2^1024\<close> or more is an infinity.\<close>

definition rnd64 :: "real \<Rightarrow> pyfloat" where
  "rnd64 x = (if 2 ^ 1024 \<le> rne x then PInf else if rne x \<le> - (2 ^ 1024) then NInf else Fin (rne x))"

text \<open>The operators \<^verbatim>\<open>-x\<close>, \<^verbatim>\<open>x + y\<close>, \<^verbatim>\<open>x - y\<close> and \<^verbatim>\<open>x * y\<close> on floats; none raises.\<close>

fun fneg :: "pyfloat \<Rightarrow> pyfloat" where
  "fneg (Fin a) = Fin (- a)"
| "fneg PInf = NInf"
| "fneg NInf = PInf"
| "fneg NaN = NaN"

fun fadd :: "pyfloat \<Rightarrow> pyfloat \<Rightarrow> pyfloat" where
  "fadd (Fin a) (Fin b) = rnd64 (a + b)"
| "fadd NaN y = NaN"
| "fadd x NaN = NaN"
| "fadd PInf NInf = NaN"
| "fadd NInf PInf = NaN"
| "fadd PInf y = PInf"
| "fadd x PInf = PInf"
| "fadd NInf y = NInf"
| "fadd x NInf = NInf"

definition fsub :: "pyfloat \<Rightarrow> pyfloat \<Rightarrow> pyfloat" where
  "fsub x y = fadd x (fneg y)"

definition inf_times :: "bool \<Rightarrow> real \<Rightarrow> pyfloat" where
  "inf_times pos b = (if b = 0 then NaN else if (0 < b) = pos then PInf else NInf)"

fun fmul :: "pyfloat \<Rightarrow> pyfloat \<Rightarrow> pyfloat" where
  "fmul (Fin a) (Fin b) = rnd64 (a * b)"
| "fmul NaN y = NaN"
| "fmul x NaN = NaN"
| "fmul PInf (Fin b) = inf_times True b"
| "fmul NInf (Fin b) = inf_times False b"
| "fmul (Fin a) PInf = inf_times True a"
| "fmul (Fin a) NInf = inf_times False a"
| "fmul PInf PInf = PInf"
| "fmul NInf NInf = PInf"
| "fmul PInf NInf = NInf"
| "fmul NInf PInf = NInf"

text \<open>\<^verbatim>\<open>x / y\<close> on floats raises ZeroDivisionError for a zero divisor.\<close>

fun fdiv :: "pyfloat \<Rightarrow> pyfloat \<Rightarrow> py_error + pyfloat" where
  "fdiv x (Fin b) =
     (if b = 0 then Inl ZeroDivisionError
      else Inr (case x of
                  Fin a \<Rightarrow> rnd64 (a / b)
                | NaN \<Rightarrow> NaN
                | PInf \<Rightarrow> (if 0 < b then PInf else NInf)
                | NInf \<Rightarrow> (if 0 < b then NInf else PInf)))"
| "fdiv x NaN = Inr NaN"
| "fdiv (Fin a) y = Inr (Fin 0)"
| "fdiv x y = Inr NaN"

text \<open>
  An int operand of a float operation is converted to the nearest float; an int too large
  for a float raises OverflowError. \<^verbatim>\<open>a / b\<close> on two ints is the correctly rounded
  quotient, with the same OverflowError.
\<close>

definition float_of_int :: "int \<Rightarrow> py_error + pyfloat" where
  "float_of_int k = (case rnd64 (real_of_int k) of Fin r \<Rightarrow> Inr (Fin r) | _ \<Rightarrow> Inl OverflowError)"

definition int_truediv :: "int \<Rightarrow> int \<Rightarrow> py_error + pyfloat" where
  "int_truediv a b =
     (if b = 0 then Inl ZeroDivisionError
      else case rnd64 (real_of_int a / real_of_int b) of
             Fin r \<Rightarrow> Inr (Fin r)
           | _ \<Rightarrow> Inl OverflowError)"

text \<open>
  \<^verbatim>\<open>int(x)\<close> on a float: the fractional part is dropped, towards zero; an infinity raises
  OverflowError and a NaN raises ValueError.
\<close>

definition py_int :: "real \<Rightarrow> int" where
  "py_int x = (if 0 \<le> x then \<lfloor>x\<rfloor> else \<lceil>x\<rceil>)"

fun py_int_f :: "pyfloat \<Rightarrow> py_error + int" where
  "py_int_f (Fin r) = Inr (py_int r)"
| "py_int_f NaN = Inl ValueError"
| "py_int_f x = Inl OverflowError"

text \<open>
  \<^verbatim>\<open>n = 2**zoom\<close> as the float operand it becomes in \<^verbatim>\<open>... * n\<close>: an int converted to
  a float for a zoom that is not negative, the float \<open>2^zoom\<close> otherwise.
\<close>

definition pow_zoom :: "int \<Rightarrow> py_error + pyfloat" where
  "pow_zoom z = (if 0 \<le> z then float_of_int (2 ^ nat z) else Inr (rnd64 (pow2 z)))"

subsection \<open>The math module\<close>

text \<open>
  The C library's functions on a finite argument are parameters. The math module wraps
  them: \<^verbatim>\<open>math.tan\<close> and \<^verbatim>\<open>math.cos\<close> raise ValueError when the result of a finite
  argument is not finite and for an infinite argument, and pass a NaN through;
  \<^verbatim>\<open>math.log\<close> raises ValueError for an argument that is not positive.
\<close>

record libm =
  c_tan :: "real \<Rightarrow> pyfloat"
  c_cos :: "real \<Rightarrow> pyfloat"
  c_log :: "real \<Rightarrow> pyfloat"

definition math_1 :: "(real \<Rightarrow> pyfloat) \<Rightarrow> pyfloat \<Rightarrow> py_error + pyfloat" where
  "math_1 f x =
     (case x of
        Fin r \<Rightarrow> (case f r of Fin v \<Rightarrow> Inr (Fin v) | _ \<Rightarrow> Inl ValueError)
      | NaN \<Rightarrow> Inr NaN
      | _ \<Rightarrow> Inl ValueError)"

definition math_log :: "libm \<Rightarrow> pyfloat \<Rightarrow> py_error + pyfloat" where
  "math_log L x =
     (case x of
        Fin r \<Rightarrow> (if 0 < r then (case c_log L r of Fin v \<Rightarrow> Inr (Fin v) | _ \<Rightarrow> Inl ValueError)
                  else Inl ValueError)
      | NaN \<Rightarrow> Inr NaN
      | PInf \<Rightarrow> Inr PInf
      | NInf \<Rightarrow> Inl ValueError)"

text \<open>
  \<^verbatim>\<open>math.pi\<close> is the double \<open>0x1.921fb54442d18p+1\<close>, and \<^verbatim>\<open>math.radians(x)\<close> is
  \<open>x\<close> times the double \<open>0x1.1df46a2529d39p-6\<close> (pi / 180).
\<close>

definition math_pi :: real where
  "math_pi = 884279719003555 / 281474976710656"

definition deg_to_rad :: real where
  "deg_to_rad = 5030569068109113 / 288230376151711744"

definition math_radians :: "pyfloat \<Rightarrow> pyfloat" where
  "math_radians x = fmul x (Fin deg_to_rad)"

subsection \<open>The projection \<^verbatim>\<open>_geo_to_pixel\<close>\<close>

text \<open>Line 118: \<^verbatim>\<open>x_tile = (lon + 180.0) / 360.0 * n\<close>.\<close>

definition tile_x :: "int \<Rightarrow> real \<Rightarrow> py_error + pyfloat" where
  "tile_x z lon =
     ebind (fdiv (fadd (Fin lon) (Fin 180)) (Fin 360)) (\<lambda>q.
     ebind (pow_zoom z) (\<lambda>n.
     Inr (fmul q n)))"

text \<open>
  Lines 119 and 120: \<^verbatim>\<open>lat_rad = math.radians(lat)\<close> and
  \<^verbatim>\<open>y_tile = (1.0 - math.log(math.tan(lat_rad) + 1.0 / math.cos(lat_rad)) / math.pi) / 2.0 * n\<close>,
  the operands evaluated from left to right. There is no test of the latitude.
\<close>

definition tile_y :: "libm \<Rightarrow> int \<Rightarrow> real \<Rightarrow> py_error + pyfloat" where
  "tile_y L z lat =
     (let lat_rad = math_radians (Fin lat) in
      ebind (math_1 (c_tan L) lat_rad) (\<lambda>t.
      ebind (math_1 (c_cos L) lat_rad) (\<lambda>c.
      ebind (fdiv (Fin 1) c) (\<lambda>s.
      ebind (math_log L (fadd t s)) (\<lambda>g.
      ebind (fdiv g (Fin math_pi)) (\<lambda>d.
      ebind (fdiv (fsub (Fin 1) d) (Fin 2)) (\<lambda>h.
      ebind (pow_zoom z) (\<lambda>n.
      Inr (fmul h n)))))))))"

text \<open>
  Lines 123 and 124 have one shape, \<^verbatim>\<open>int((tile - center) * tile_size + extent / 2)\<close>:
  first the float inside \<^verbatim>\<open>int(...)\<close>, then the conversion.
\<close>

definition raw_pixel :: "int \<Rightarrow> pyfloat \<Rightarrow> real \<Rightarrow> int \<Rightarrow> py_error + pyfloat" where
  "raw_pixel ts tile center extent =
     ebind (float_of_int ts) (\<lambda>tsf.
     ebind (int_truediv extent 2) (\<lambda>half.
     Inr (fadd (fmul (fsub tile (Fin center)) tsf) half)))"

definition to_pixel :: "int \<Rightarrow> pyfloat \<Rightarrow> real \<Rightarrow> int \<Rightarrow> py_error + int" where
  "to_pixel ts tile center extent = ebind (raw_pixel ts tile center extent) py_int_f"

definition geo_to_pixel :: "libm \<Rightarrow> static_map \<Rightarrow> real \<Rightarrow> real \<Rightarrow> py_error + (int \<times> int)" where
  "geo_to_pixel L m lon lat =
     ebind (tile_x (zoom m) lon) (\<lambda>x_tile.
     ebind (tile_y L (zoom m) lat) (\<lambda>y_tile.
     ebind (to_pixel (tile_size m) x_tile (x_center m) (width m)) (\<lambda>px.
     ebind (to_pixel (tile_size m) y_tile (y_center m) (height m)) (\<lambda>py.
     Inr (px, py)))))"






subsection \<open>Label placement\<close>

text \<open>
  Lines 85 to 93 of \<^verbatim>\<open>render_route_map\<close>: the text origin and the rectangle drawn
  beneath the text, from the marker's pixel \<open>(px, py)\<close>, the text size \<open>(tw, th)\<close> and
  the image size \<open>(w, h)\<close>. \<^verbatim>\<open>th // 2\<close> is floor division on ints, which is \<open>div\<close>.
\<close>

definition label_origin :: "int \<Rightarrow> int \<Rightarrow> int \<Rightarrow> int \<Rightarrow> int \<Rightarrow> int \<Rightarrow> int \<times> int" where
  "label_origin px py tw th w h =
     (let label_x0 = px + 10;
          label_y0 = py - th div 2;
          label_x = min label_x0 (w - tw - 4);
          label_y = max 4 (min label_y0 (h - th - 4))
      in (label_x, label_y))"

definition label_box :: "int \<times> int \<Rightarrow> int \<Rightarrow> int \<Rightarrow> int \<times> int \<times> int \<times> int" where
  "label_box origin tw th =
     (case origin of (label_x, label_y) \<Rightarrow>
        (label_x - 2, label_y - 2, label_x + tw + 2, label_y + th + 2))"

text \<open>A rectangle \<open>(x0, y0, x1, y1)\<close> lies within the image \<open>[0, w] \<times> [0, h]\<close>.\<close>

definition box_within :: "int \<times> int \<times> int \<times> int \<Rightarrow> int \<Rightarrow> int \<Rightarrow> bool" where
  "box_within b w h =
     (case b of (x0, y0, x1, y1) \<Rightarrow> 0 \<le> x0 \<and> 0 \<le> y0 \<and> x1 \<le> w \<and> y1 \<le> h)"

subsection \<open>The basemap table\<close>

definition BASEMAPS :: "(string \<times> string) list" where
  "BASEMAPS =
     [(''osm'', ''https://a.tile.openstreetmap.org/{z}/{x}/{y}.png''),
      (''topo'', ''https://tile.opentopomap.org/{z}/{x}/{y}.png''),
      (''cycle'', ''https://a.tile-cyclosm.openstreetmap.fr/cyclosm/{z}/{x}/{y}.png''),
      (''humanitarian'', ''https://a.tile.openstreetmap.fr/hot/{z}/{x}/{y}.png'')]"

text \<open>
  \<^verbatim>\<open>BASEMAPS.get(basemap, BASEMAPS["osm"])\<close>. The default is evaluated first; a
  subscript on a missing key would raise KeyError, which is the \<open>None\<close> here.
\<close>

definition tile_url :: "string \<Rightarrow> string option" where
  "tile_url basemap =
     (case map_of BASEMAPS ''osm'' of
        None \<Rightarrow> None
      | Some dflt \<Rightarrow> (case map_of BASEMAPS basemap of None \<Rightarrow> Some dflt | Some u \<Rightarrow> Some u))"

subsection \<open>The render operation \<^verbatim>\<open>render_route_map\<close>\<close>

text \<open>
  A marker is a dict read only through \<^verbatim>\<open>marker.get\<close> on the keys \<^verbatim>\<open>"lon"\<close>,
  \<^verbatim>\<open>"lat"\<close> and \<^verbatim>\<open>"label"\<close>, with numbers for the position and a string for the
  label, as the tool's docstring declares. A key that is absent, or present with the value
  \<^verbatim>\<open>None\<close>, reads as \<open>None\<close>.
\<close>

record marker =
  mk_lon :: "real option"
  mk_lat :: "real option"
  mk_label :: "string option"

text \<open>
  \<^verbatim>\<open>marker.get("label", "")\<close>. The only use of the value before drawing is the truth
  test \<^verbatim>\<open>not label\<close>, which \<^verbatim>\<open>None\<close> and the empty string both pass, so both read
  as the empty string.
\<close>

definition get_label :: "marker \<Rightarrow> string" where
  "get_label mk = (case mk_label mk of None \<Rightarrow> [] | Some s \<Rightarrow> s)"

text \<open>
  What the operation does to its collaborators (the map object, the drawing surface and
  the file system) is recorded as a trace of events, in program order.
\<close>

datatype event =
    New_map int int string
  | Add_line "(real \<times> real) list" string int
  | Add_marker real real
  | Render
  | Rectangle "int \<times> int \<times> int \<times> int"
  | Text "int \<times> int" string
  | Mkdir string
  | Save string

text \<open>
  The collaborators themselves are parameters: \<open>map_render\<close> is \<^verbatim>\<open>m.render()\<close>, which
  sees what was added to the map and either raises or fixes the zoom and the centre;
  \<open>map_tile_size\<close> is the tile size the map object was built with; \<open>textbbox\<close> is
  \<^verbatim>\<open>draw.textbbox((0, 0), label, font=font)\<close>; \<open>path_resolve\<close> is
  \<^verbatim>\<open>Path(output_path).resolve()\<close>; \<open>fs_mkdir\<close> and \<open>image_save\<close> say whether creating the
  parent directories and writing the file raise; \<open>c_lib\<close> is the C library behind the
  math module.
\<close>

record env =
  map_render :: "event list \<Rightarrow> py_error + (int \<times> real \<times> real)"
  map_tile_size :: int
  textbbox :: "string \<Rightarrow> int \<times> int \<times> int \<times> int"
  path_resolve :: "string \<Rightarrow> string"
  fs_mkdir :: "string \<Rightarrow> py_error option"
  image_save :: "string \<Rightarrow> py_error option"
  c_lib :: libm

text \<open>\<^verbatim>\<open>[(c[0], c[1]) for c in coordinates]\<close>: a pair shorter than two raises IndexError.\<close>

fun line_coords :: "real list list \<Rightarrow> py_error + (real \<times> real) list" where
  "line_coords [] = Inr []"
| "line_coords (c # cs) =
     (case c of
        a # b # _ \<Rightarrow> (case line_coords cs of Inl e \<Rightarrow> Inl e | Inr r \<Rightarrow> Inr ((a, b) # r))
      | _ \<Rightarrow> Inl IndexError)"

text \<open>
  The first loop over the markers (lines 53 to 58). \<^verbatim>\<open>if markers:\<close> only skips the
  loop for \<^verbatim>\<open>None\<close> and the empty list, which both are the empty list here.
\<close>

fun add_markers :: "marker list \<Rightarrow> event list" where
  "add_markers [] = []"
| "add_markers (mk # mks) =
     (case (mk_lon mk, mk_lat mk) of
        (Some lo, Some la) \<Rightarrow> Add_marker lo la # add_markers mks
      | _ \<Rightarrow> add_markers mks)"

text \<open>
  The second loop (lines 71 to 97): the events drawn, and the exception that ended the
  loop if one was raised.
\<close>

fun draw_labels :: "env \<Rightarrow> static_map \<Rightarrow> int \<Rightarrow> int \<Rightarrow> marker list \<Rightarrow> event list \<times> py_error option" where
  "draw_labels E m w h [] = ([], None)"
| "draw_labels E m w h (mk # mks) =
     (if mk_lon mk = None \<or> mk_lat mk = None \<or> get_label mk = [] then draw_labels E m w h mks
      else (case geo_to_pixel (c_lib E) m (the (mk_lon mk)) (the (mk_lat mk)) of
              Inl e \<Rightarrow> ([], Some e)
            | Inr (px, py) \<Rightarrow>
                (case textbbox E (get_label mk) of (b0, b1, b2, b3) \<Rightarrow>
                   (let tw = b2 - b0;
                        th = b3 - b1;
                        origin = label_origin px py tw th w h;
                        drawn = [Rectangle (label_box origin tw th), Text origin (get_label mk)]
                    in (case draw_labels E m w h mks of (evs, r) \<Rightarrow> (drawn @ evs, r))))))"

text \<open>Lines 100 to 104: create the parent directories, write the file, return its path.\<close>

definition save_png :: "env \<Rightarrow> event list \<Rightarrow> string \<Rightarrow> event list \<times> (py_error + string)" where
  "save_png E t output_path =
     (let out = path_resolve E output_path
      in (case fs_mkdir E out of
            Some e \<Rightarrow> (t, Inl e)
          | None \<Rightarrow>
              (case image_save E out of
                 Some e \<Rightarrow> (t @ [Mkdir out], Inl e)
               | None \<Rightarrow> (t @ [Mkdir out, Save out], Inr out))))"

text \<open>Lines 60 to 104: render the base map, draw the labels, save.\<close>

definition render_and_draw ::
  "env \<Rightarrow> event list \<Rightarrow> string \<Rightarrow> marker list \<Rightarrow> int \<Rightarrow> int \<Rightarrow> event list \<times> (py_error + string)" where
  "render_and_draw E t1 output_path markers w h =
     (case map_render E t1 of
        Inl e \<Rightarrow> (t1, Inl e)
      | Inr (z, xc, yc) \<Rightarrow>
          (let m = \<lparr>width = w, height = h, tile_size = map_tile_size E,
                    zoom = z, x_center = xc, y_center = yc\<rparr>
           in (case draw_labels E m w h markers of
                 (evs, Some e) \<Rightarrow> (t1 @ [Render] @ evs, Inl e)
               | (evs, None) \<Rightarrow> save_png E (t1 @ [Render] @ evs) output_path)))"

definition render_route_map ::
  "env \<Rightarrow> real list list \<Rightarrow> string \<Rightarrow> marker list \<Rightarrow> int \<Rightarrow> int \<Rightarrow> string \<Rightarrow> int \<Rightarrow> string
     \<Rightarrow> event list \<times> (py_error + string)" where
  "render_route_map E coordinates output_path markers w h line_color line_width basemap =
     (if length coordinates < 2
      then ([], Inr ''Error: coordinates must contain at least 2 [lon, lat] pairs.'')
      else (case tile_url basemap of
              None \<Rightarrow> ([], Inl KeyError)
            | Some url \<Rightarrow>
                (case line_coords coordinates of
                   Inl e \<Rightarrow> ([New_map w h url], Inl e)
                 | Inr lc \<Rightarrow>
                     render_and_draw E
                       ([New_map w h url, Add_line lc line_color line_width] @ add_markers markers)
                       output_path markers w h)))"

subsection \<open>Stand-ins for the collaborators\<close>

text \<open>
  A C library whose results are correctly rounded. It is used below only at arguments
  where the exact result is a double (\<open>tan 0\<close>, \<open>cos 0\<close>, \<open>log 1\<close>), where every C
  library returns that double.
\<close>

definition ref_libm :: libm where
  "ref_libm =
     \<lparr>c_tan = (\<lambda>x. rnd64 (tan x)), c_cos = (\<lambda>x. rnd64 (cos x)), c_log = (\<lambda>x. rnd64 (ln x))\<rparr>"

text \<open>
  The C library at the arguments that the latitudes 90.0 and -90.0 lead to.
  \<^verbatim>\<open>math.radians(90.0)\<close> is the double \<open>r = 0x1.921fb54442d18p+0\<close>, a little below
  \<open>pi / 2\<close>; there \<open>tan r = 16331239353195370\<close> and
  \<open>cos r = 0x1.1a62633145c07p-54\<close> (about \<open>6.1e-17\<close>), and
  \<open>log 32662478706390740 = 0x1.303334f80713cp+5\<close> (about \<open>38.03\<close>), each the double
  nearest to the exact value.
\<close>

definition pole_rad :: real where
  "pole_rad = 884279719003555 / 562949953421312"

definition pole_libm :: libm where
  "pole_libm =
     \<lparr>c_tan = (\<lambda>x. if x = pole_rad then Fin 16331239353195370
                    else if x = - pole_rad then Fin (- 16331239353195370)
                    else rnd64 (tan x)),
      c_cos = (\<lambda>x. if x = pole_rad \<or> x = - pole_rad
                    then Fin (4967757600021511 / 81129638414606681695789005144064)
                    else rnd64 (cos x)),
      c_log = (\<lambda>x. if x = 32662478706390740 then Fin (1337885867383887 / 35184372088832)
                    else rnd64 (ln x))\<rparr>"

text \<open>
  Collaborators that always succeed, in the manner of the test suite's
  \<^verbatim>\<open>_mock_render\<close> (zoom 10, no tiles fetched, the centre of the tile grid as the
  centre of the view), with a text box of 7 by 10 pixels per character. Used to run the
  operation on concrete inputs.
\<close>

definition mock_env :: env where
  "mock_env =
     \<lparr>map_render = (\<lambda>t. Inr (10, 512, 512)),
      map_tile_size = 256,
      textbbox = (\<lambda>s. (0, 0, 7 * int (length s), 10)),
      path_resolve = (\<lambda>p. p),
      fs_mkdir = (\<lambda>p. None),
      image_save = (\<lambda>p. None),
      c_lib = ref_libm\<rparr>"

section \<open>Rounding to a double\<close>

subsection \<open>Powers of two, rounding to an integer, exponents\<close>

lemma pow2_powr: "pow2 k = 2 powr (real_of_int k)"
  by (simp add: pow2_def powr_real_of_int inverse_eq_divide)

lemma pow2_pos [simp]: "0 < pow2 k"
  by (simp add: pow2_powr)

lemma pow2_abs [simp]: "\<bar>pow2 k\<bar> = pow2 k"
  using pow2_pos [of k] by linarith

lemma pow2_add: "pow2 (a + b) = pow2 a * pow2 b"
  by (simp add: pow2_powr powr_add)

lemma pow2_mono: "a \<le> b \<Longrightarrow> pow2 a \<le> pow2 b"
  by (simp add: pow2_powr)

lemma pow2_nat: "pow2 (int n) = 2 ^ n"
  by (simp add: pow2_def)

lemma rhe_of_int [simp]: "rhe (real_of_int k) = k"
  by (simp add: rhe_def)

lemma rhe_zero [simp]: "rhe 0 = 0"
  by (simp add: rhe_def)

lemma rhe_lower: "\<lfloor>r\<rfloor> \<le> rhe r"
  by (simp add: rhe_def Let_def)

lemma rhe_upper: "rhe r \<le> \<lceil>r\<rceil>"
  unfolding rhe_def Let_def by (auto simp: ceiling_altdef)

lemma rhe_near: "\<bar>real_of_int (rhe r) - r\<bar> \<le> 1 / 2"
  unfolding rhe_def Let_def by (auto; linarith)


lemma rhe_minus: "rhe (- r) = - rhe r"
proof (cases "r \<in> \<int>")
  case True
  then obtain k where "r = real_of_int k" by (auto elim: Ints_cases)
  then show ?thesis
    by (metis of_int_minus rhe_of_int)
next
  case False
  then have ne: "r \<noteq> real_of_int \<lfloor>r\<rfloor>" by (metis Ints_of_int)
  then have f: "\<lfloor>- r\<rfloor> = - \<lfloor>r\<rfloor> - 1"
    by (simp add: floor_minus ceiling_altdef)
  show ?thesis
    using ne unfolding rhe_def Let_def f by (auto; linarith?)
qed


lemma expo_eq:
  assumes "pow2 e \<le> \<bar>x\<bar>" "\<bar>x\<bar> < pow2 (e + 1)" "- 1022 \<le> e"
  shows "expo x = e"
proof -
  have p: "0 < \<bar>x\<bar>" using assms(1) pow2_pos [of e] by linarith
  have "\<lfloor>log 2 \<bar>x\<bar>\<rfloor> = e"
    using assms(1,2) p by (simp add: floor_log_eq_powr_iff pow2_powr)
  then show ?thesis using assms(3) p by (simp add: expo_def)
qed


lemma expo_le:
  assumes "\<bar>x\<bar> < pow2 (e + 1)" "- 1022 \<le> e"
  shows "expo x \<le> e"
proof (cases "x = 0")
  case True
  then show ?thesis using assms(2) by (simp add: expo_def)
next
  case False
  then have p: "0 < \<bar>x\<bar>" by simp
  have "log 2 \<bar>x\<bar> < real_of_int (e + 1)"
    using assms(1) p by (simp add: pow2_powr log_less_iff)
  then have "\<lfloor>log 2 \<bar>x\<bar>\<rfloor> < e + 1" by linarith
  then show ?thesis using assms(2) False by (simp add: expo_def)
qed


lemma expo_upper: "\<bar>x\<bar> < pow2 (expo x + 1)"
proof (cases "x = 0")
  case True
  then show ?thesis by simp
next
  case False
  then have p: "0 < \<bar>x\<bar>" by simp
  have "log 2 \<bar>x\<bar> < real_of_int (\<lfloor>log 2 \<bar>x\<bar>\<rfloor> + 1)" by linarith
  also have "\<dots> \<le> real_of_int (expo x + 1)" using False by (simp add: expo_def)
  finally have "log 2 \<bar>x\<bar> < real_of_int (expo x + 1)" .
  then show ?thesis using p by (simp add: pow2_powr log_less_iff)
qed


lemma pow2_nonzero [simp]: "pow2 k \<noteq> 0"
  using pow2_pos [of k] by linarith

lemma pow2_nonneg [simp]: "0 \<le> pow2 k"
  using pow2_pos [of k] by linarith

lemma ulp_pos [simp]: "0 < ulp x"
  by (simp add: ulp_def)

lemma ulp_nonneg [simp]: "0 \<le> ulp x"
  by (simp add: ulp_def)

lemma expo_minus [simp]: "expo (- x) = expo x"
  by (simp add: expo_def)

lemma rne_minus: "rne (- x) = - rne x"
  by (simp add: rne_def ulp_def rhe_minus)

lemma rne_zero [simp]: "rne 0 = 0"
  by (simp add: rne_def)

lemma pow2_diff: "pow2 (a - b) = pow2 a / pow2 b"
  by (simp add: pow2_powr powr_diff)

lemma pow2_int_times:
  assumes "0 \<le> j"
  shows "\<exists>n::int. pow2 j = real_of_int n"
proof -
  have "pow2 j = real_of_int (2 ^ nat j)" using assms by (simp add: pow2_def)
  then show ?thesis by blast
qed

text \<open>A value with at most 53 significant bits above the subnormal floor is not changed.\<close>

lemma rne_exact:
  assumes x: "x = real_of_int m * pow2 k" and m: "\<bar>m\<bar> < 2 ^ 53" and k: "- 1074 \<le> k"
  shows "rne x = x"
proof -
  have "\<bar>x\<bar> = real_of_int \<bar>m\<bar> * pow2 k" by (simp add: x abs_mult)
  also have "\<dots> < 2 ^ 53 * pow2 k"
  proof -
    have "real_of_int \<bar>m\<bar> < real_of_int (2 ^ 53)" using m by linarith
    then show ?thesis by simp
  qed
  also have "\<dots> = pow2 (53 + k)"
  proof -
    have "(2::real) ^ 53 = pow2 53" using pow2_nat [of 53] by simp
    then show ?thesis by (simp only: pow2_add)
  qed
  finally have "\<bar>x\<bar> < pow2 (max (52 + k) (- 1022) + 1)"
    using pow2_mono [of "53 + k" "max (52 + k) (- 1022) + 1"] by simp
  then have "expo x \<le> max (52 + k) (- 1022)" by (rule expo_le) simp
  then have "expo x - 52 \<le> k" using k by simp
  define u where "u = expo x - 52"
  define j where "j = k - u"
  have j: "0 \<le> j" "k = u + j" using \<open>expo x - 52 \<le> k\<close> by (simp_all add: u_def j_def)
  obtain n :: int where n: "pow2 j = real_of_int n" using pow2_int_times [OF j(1)] by blast
  have pk: "pow2 k = pow2 u * pow2 j" unfolding j(2) by (rule pow2_add)
  have ux: "ulp x = pow2 u" by (simp add: ulp_def u_def)
  have pu: "pow2 u \<noteq> 0" using pow2_pos [of u] by linarith
  have "x / ulp x = x / pow2 u" by (simp only: ux)
  also have "\<dots> = real_of_int m * (pow2 u * pow2 j) / pow2 u" by (simp only: x pk)
  also have "\<dots> = real_of_int m * pow2 j" using pu by simp
  also have "\<dots> = real_of_int (m * n)" by (simp add: n)
  finally have q: "x / ulp x = real_of_int (m * n)" .
  then have "rhe (x / ulp x) = m * n" by (simp only: rhe_of_int)
  then have "rne x = real_of_int (m * n) * ulp x" by (simp add: rne_def)
  also have "\<dots> = x / ulp x * ulp x" unfolding q ..
  also have "\<dots> = x" unfolding ux using pu by simp
  finally show ?thesis .
qed

lemma rne_eval:
  assumes "pow2 e \<le> \<bar>x\<bar>" "\<bar>x\<bar> < pow2 (e + 1)" "- 1022 \<le> e"
  shows "rne x = real_of_int (rhe (x / pow2 (e - 52))) * pow2 (e - 52)"
  using expo_eq [OF assms] by (simp add: rne_def ulp_def)


lemma pow2_53: "pow2 (e + 1) / pow2 (e - 52) = 2 ^ 53"
proof -
  have "e + 1 = (e - 52) + 53" by simp
  then have "pow2 (e + 1) = pow2 (e - 52) * pow2 53"
    by (simp only: pow2_add)
  moreover have "pow2 53 = 2 ^ 53" using pow2_nat [of 53] by simp
  moreover have "pow2 (e - 52) \<noteq> 0" using pow2_pos [of "e - 52"] by linarith
  ultimately show ?thesis by simp
qed


lemma rne_nonneg:
  assumes "0 \<le> x"
  shows "0 \<le> rne x"
proof -
  have "0 \<le> x / ulp x" using assms ulp_nonneg [of x] by (rule divide_nonneg_nonneg)
  then have "0 \<le> \<lfloor>x / ulp x\<rfloor>" by simp
  then have "0 \<le> rhe (x / ulp x)" using rhe_lower [of "x / ulp x"] by linarith
  then show ?thesis by (simp add: rne_def)
qed

lemma rne_le_pow2:
  assumes "0 \<le> x"
  shows "rne x \<le> pow2 (expo x + 1)"
proof -
  have "x < pow2 (expo x + 1)" using expo_upper [of x] assms by simp
  then have "x / ulp x < pow2 (expo x + 1) / ulp x"
    using ulp_pos [of x] by (rule divide_strict_right_mono)
  then have "x / ulp x < real_of_int (2 ^ 53)" by (simp add: ulp_def pow2_53)
  then have "\<lceil>x / ulp x\<rceil> \<le> 2 ^ 53" by (simp only: ceiling_le_iff less_imp_le)
  then have "rhe (x / ulp x) \<le> 2 ^ 53" using rhe_upper [of "x / ulp x"] by linarith
  then have "real_of_int (rhe (x / ulp x)) \<le> real_of_int (2 ^ 53)" by (simp only: of_int_le_iff)
  then have "rne x \<le> real_of_int (2 ^ 53) * ulp x"
    unfolding rne_def by (rule mult_right_mono) simp
  also have "\<dots> = pow2 (expo x + 1) / pow2 (expo x - 52) * pow2 (expo x - 52)"
    by (simp add: ulp_def pow2_53)
  also have "\<dots> = pow2 (expo x + 1)" by simp
  finally show ?thesis .
qed





subsection \<open>Finite results and exact values\<close>

lemma rne_bound:
  assumes "\<bar>x\<bar> < pow2 (e + 1)" "- 1022 \<le> e"
  shows "\<bar>rne x\<bar> \<le> pow2 (e + 1)"
proof -
  have le: "expo x \<le> e" using assms by (rule expo_le)
  have a: "rne \<bar>x\<bar> \<le> pow2 (expo x + 1)"
    using rne_le_pow2 [of "\<bar>x\<bar>"] by (simp add: expo_def)
  have "\<bar>rne x\<bar> = rne \<bar>x\<bar>"
  proof (cases "0 \<le> x")
    case True
    then show ?thesis using rne_nonneg [of x] by simp
  next
    case False
    then have "0 \<le> rne (- x)" by (intro rne_nonneg) simp
    then show ?thesis using False by (simp add: rne_minus)
  qed
  also have "\<dots> \<le> pow2 (expo x + 1)" by (rule a)
  also have "\<dots> \<le> pow2 (e + 1)" using le by (intro pow2_mono) simp
  finally show ?thesis .
qed

lemma pow2_1023_less: "pow2 1023 < 2 ^ 1024"
proof -
  have "pow2 1023 = 2 ^ 1023" using pow2_nat [of 1023] by simp
  also have "\<dots> < (2::real) ^ 1024" by (rule power_strict_increasing) simp_all
  finally show ?thesis .
qed

lemma rnd64_finite:
  assumes "\<bar>x\<bar> < pow2 (e + 1)" "- 1022 \<le> e" "e \<le> 1022"
  shows "rnd64 x = Fin (rne x)"
proof -
  have "\<bar>rne x\<bar> \<le> pow2 (e + 1)" using assms(1,2) by (rule rne_bound)
  also have "\<dots> \<le> pow2 1023" using assms(3) by (intro pow2_mono) simp
  also have "\<dots> < 2 ^ 1024" by (rule pow2_1023_less)
  finally have "\<bar>rne x\<bar> < 2 ^ 1024" .
  then show ?thesis by (simp add: rnd64_def abs_less_iff not_le) linarith?
qed

lemma rnd64_eval:
  assumes "pow2 e \<le> \<bar>x\<bar>" "\<bar>x\<bar> < pow2 (e + 1)" "- 1022 \<le> e" "e \<le> 1022"
  shows "rnd64 x = Fin (real_of_int (rhe (x / pow2 (e - 52))) * pow2 (e - 52))"
  using rnd64_finite [OF assms(2-4)] rne_eval [OF assms(1-3)] by simp

lemma rnd64_exact:
  assumes "x = real_of_int m * pow2 k" "\<bar>m\<bar> < 2 ^ 53" "- 1074 \<le> k" "k \<le> 970"
  shows "rnd64 x = Fin x"
proof -
  have r: "rne x = x" using assms(1-3) by (rule rne_exact)
  have "\<bar>x\<bar> = real_of_int \<bar>m\<bar> * pow2 k" by (simp add: assms(1) abs_mult)
  also have "\<dots> \<le> real_of_int (2 ^ 53) * pow2 k"
    using assms(2) by (intro mult_right_mono) simp_all
  also have "\<dots> \<le> real_of_int (2 ^ 53) * pow2 970"
    using assms(4) by (intro mult_left_mono pow2_mono) simp_all
  also have "\<dots> = 2 ^ 53 * 2 ^ 970" using pow2_nat [of 970] by simp
  also have "\<dots> = (2::real) ^ 1023" by (simp only: power_add [symmetric]) simp
  also have "\<dots> < (2::real) ^ 1024" by (rule power_strict_increasing) simp_all
  finally have "\<bar>x\<bar> < 2 ^ 1024" .
  then show ?thesis using r by (simp add: rnd64_def abs_less_iff not_le) linarith?
qed

lemma rnd64_dyadic:
  assumes "\<bar>a\<bar> < 2 ^ 53" "k \<le> 1074"
  shows "rnd64 (real_of_int a / 2 ^ k) = Fin (real_of_int a / 2 ^ k)"
proof (rule rnd64_exact [where m = a and k = "- int k"])
  show "real_of_int a / 2 ^ k = real_of_int a * pow2 (- int k)"
    by (simp add: pow2_def)
qed (use assms in simp_all)

lemma rnd64_exact_values:
  "rnd64 0 = Fin 0" "rnd64 1 = Fin 1" "rnd64 2 = Fin 2" "rnd64 (1 / 2) = Fin (1 / 2)"
  "rnd64 180 = Fin 180" "rnd64 256 = Fin 256" "rnd64 300 = Fin 300" "rnd64 400 = Fin 400"
  "rnd64 512 = Fin 512" "rnd64 1024 = Fin 1024"
  "rnd64 (3 / 1024) = Fin (3 / 1024)" "rnd64 (3 / 4) = Fin (3 / 4)"
  "rnd64 (1603 / 4) = Fin (1603 / 4)"
  "rnd64 (23085 / 128) = Fin (23085 / 128)" "rnd64 (513 / 1024) = Fin (513 / 1024)"
  "rnd64 (1 / 1024) = Fin (1 / 1024)" "rnd64 (1 / 4) = Fin (1 / 4)"
  "rnd64 (1601 / 4) = Fin (1601 / 4)"
  "rnd64 270 = Fin 270" "rnd64 64 = Fin 64" "rnd64 464 = Fin 464"
  "rnd64 45 = Fin 45" "rnd64 (1 / 8) = Fin (1 / 8)" "rnd64 (- (3 / 8)) = Fin (- (3 / 8))"
  "rnd64 (- 96) = Fin (- 96)" "rnd64 50 = Fin 50" "rnd64 (- 46) = Fin (- 46)"
  "rnd64 (801 / 2) = Fin (801 / 2)"
  using rnd64_dyadic [of 0 0] rnd64_dyadic [of 1 0] rnd64_dyadic [of 2 0] rnd64_dyadic [of 1 1]
    rnd64_dyadic [of 180 0] rnd64_dyadic [of 256 0] rnd64_dyadic [of 300 0]
    rnd64_dyadic [of 400 0] rnd64_dyadic [of 512 0] rnd64_dyadic [of 1024 0]
    rnd64_dyadic [of 3 10] rnd64_dyadic [of 3 2] rnd64_dyadic [of 1603 2]
    rnd64_dyadic [of 23085 7] rnd64_dyadic [of 513 10] rnd64_dyadic [of 1 10]
    rnd64_dyadic [of 1 2] rnd64_dyadic [of 1601 2]
    rnd64_dyadic [of 270 0] rnd64_dyadic [of 64 0] rnd64_dyadic [of 464 0]
    rnd64_dyadic [of 45 0] rnd64_dyadic [of 1 3] rnd64_dyadic [of "- 3" 3]
    rnd64_dyadic [of "- 96" 0] rnd64_dyadic [of 50 0] rnd64_dyadic [of "- 46" 0]
    rnd64_dyadic [of 801 1]
  by simp_all

lemmas geo_defs = geo_to_pixel_def tile_x_def tile_y_def raw_pixel_def to_pixel_def ebind_def
  pow_zoom_def float_of_int_def int_truediv_def math_1_def math_log_def math_radians_def
  fsub_def ref_libm_def py_int_def math_pi_def

section \<open>What a returned value tells about the steps\<close>









lemma int_truediv_Inr:
  assumes "int_truediv a b = Inr f"
  shows "\<exists>r. f = Fin r"
proof (cases "rnd64 (real_of_int a / real_of_int b)")
  case (Fin r)
  then have "Inr (Fin r) = (Inr f :: py_error + pyfloat)"
    using assms by (simp add: int_truediv_def split: if_splits)
  then have "f = Fin r" by simp
  then show ?thesis by blast
qed (use assms in \<open>simp_all add: int_truediv_def split: if_splits\<close>)






section \<open>Properties of the projection\<close>

subsection \<open>The conversion to an integer\<close>








subsection \<open>Truncation, not rounding\<close>




subsection \<open>Monotonicity in the longitude\<close>




subsection \<open>The centre of the view\<close>











subsection \<open>The poles\<close>













lemma pole_radians:
  "rnd64 (226375608064910085 / 144115188075855872) = Fin (884279719003555 / 562949953421312)"
proof -
  have "rnd64 (226375608064910085 / 144115188075855872)
      = Fin (real_of_int (rhe ((226375608064910085 / 144115188075855872) / pow2 (0 - 52))) * pow2 (0 - 52))"
    by (rule rnd64_eval) (simp_all add: pow2_def)
  also have "\<dots> = Fin (884279719003555 / 562949953421312)"
    by (simp add: pow2_def rhe_def Let_def)
  finally show ?thesis .
qed

lemma pole_radians_neg:
  "rnd64 (- (226375608064910085 / 144115188075855872)) = Fin (- (884279719003555 / 562949953421312))"
proof -
  have "rnd64 (- (226375608064910085 / 144115188075855872))
      = Fin (real_of_int (rhe (- (226375608064910085 / 144115188075855872) / pow2 (0 - 52))) * pow2 (0 - 52))"
    by (rule rnd64_eval) (simp_all add: pow2_def)
  also have "\<dots> = Fin (- (884279719003555 / 562949953421312))"
    by (simp add: pow2_def rhe_def Let_def)
  finally show ?thesis .
qed

lemma pole_secant:
  "rnd64 (81129638414606681695789005144064 / 4967757600021511) = Fin (16331239353195370)"
proof -
  have "rnd64 (81129638414606681695789005144064 / 4967757600021511)
      = Fin (real_of_int (rhe ((81129638414606681695789005144064 / 4967757600021511) / pow2 (53 - 52))) * pow2 (53 - 52))"
    by (rule rnd64_eval) (simp_all add: pow2_def)
  also have "\<dots> = Fin (16331239353195370)"
    by (simp add: pow2_def rhe_def Let_def)
  finally show ?thesis .
qed

lemma pole_log_over_pi:
  "rnd64 (10703086939071096 / 884279719003555) = Fin (3406898385390937 / 281474976710656)"
proof -
  have "rnd64 (10703086939071096 / 884279719003555)
      = Fin (real_of_int (rhe ((10703086939071096 / 884279719003555) / pow2 (3 - 52))) * pow2 (3 - 52))"
    by (rule rnd64_eval) (simp_all add: pow2_def)
  also have "\<dots> = Fin (3406898385390937 / 281474976710656)"
    by (simp add: pow2_def rhe_def Let_def)
  finally show ?thesis .
qed

lemma pole_exact_values:
  "rnd64 32662478706390740 = Fin 32662478706390740"
  "rnd64 (- (3125423408680281 / 281474976710656)) = Fin (- (3125423408680281 / 281474976710656))"
  "rnd64 (- (3125423408680281 / 562949953421312)) = Fin (- (3125423408680281 / 562949953421312))"
  "rnd64 (- (3406898385390937 / 562949953421312)) = Fin (- (3406898385390937 / 562949953421312))"
  "rnd64 (- (3406898385390937 / 2199023255552)) = Fin (- (3406898385390937 / 2199023255552))"
  "rnd64 (- (2747191408725337 / 2199023255552)) = Fin (- (2747191408725337 / 2199023255552))"
  using rnd64_exact [of 32662478706390740 8165619676597685 2]
    rnd64_dyadic [of "- 3125423408680281" 48] rnd64_dyadic [of "- 3125423408680281" 49]
    rnd64_dyadic [of "- 3406898385390937" 49] rnd64_dyadic [of "- 3406898385390937" 41]
    rnd64_dyadic [of "- 2747191408725337" 41]
  by (simp_all add: pow2_def)

lemmas pole_defs = pole_libm_def pole_rad_def deg_to_rad_def pole_radians pole_radians_neg
  pole_secant pole_log_over_pi pole_exact_values




lemma south_pole_raises:
  "geo_to_pixel pole_libm \<lparr>width = 800, height = 600, tile_size = 256, zoom = 0,
        x_center = 1 / 2, y_center = 1 / 2\<rparr> 0 (- 90) = Inl ValueError"
  by (simp add: geo_defs rnd64_exact_values pole_defs)

section \<open>Properties of the label placement\<close>

text \<open>
  C3, as the code has it. For a marker with a position and a label whose projection
  returned \<open>(px, py)\<close> and whose text box is \<open>tw = b2 - b0\<close> wide and \<open>th = b3 - b1\<close>
  high, the label loop draws a rectangle and the text, then goes on with the other
  markers. The text origin starts at \<open>(px + 10, py - th div 2)\<close>, where the halving is
  Python's floor division and not \<open>th / 2\<close>; the X coordinate is then capped at
  \<open>w - tw - 4\<close>, the Y coordinate is \<open>max 4 (min y0 (h - th - 4))\<close>, which lies in
  \<open>[4, h - th - 4]\<close> when that interval is not empty, and the rectangle is the \<open>tw\<close> by
  \<open>th\<close> rectangle at the text origin grown by 2 pixels on each of its four sides.
\<close>

theorem label_layout_placement:
  assumes "mk_lon mk = Some lo" and "mk_lat mk = Some la" and "get_label mk \<noteq> []"
    and "geo_to_pixel (c_lib E) m lo la = Inr (px, py)"
    and "textbbox E (get_label mk) = (b0, b1, b2, b3)"
  shows "\<exists>x y evs r.
           draw_labels E m w h ms = (evs, r)
         \<and> draw_labels E m w h (mk # ms)
             = (Rectangle (x - 2, y - 2, x + (b2 - b0) + 2, y + (b3 - b1) + 2)
                  # Text (x, y) (get_label mk) # evs, r)
         \<and> x = min (px + 10) (w - (b2 - b0) - 4)
         \<and> y = max 4 (min (py - (b3 - b1) div 2) (h - (b3 - b1) - 4))
         \<and> x \<le> w - (b2 - b0) - 4
         \<and> (px + 10 \<le> w - (b2 - b0) - 4 \<longrightarrow> x = px + 10)
         \<and> (4 \<le> h - (b3 - b1) - 4 \<longrightarrow> 4 \<le> y \<and> y \<le> h - (b3 - b1) - 4)
         \<and> (4 \<le> py - (b3 - b1) div 2 \<and> py - (b3 - b1) div 2 \<le> h - (b3 - b1) - 4
              \<longrightarrow> y = py - (b3 - b1) div 2)"
proof -
  obtain evs r where d: "draw_labels E m w h ms = (evs, r)"
    by (cases "draw_labels E m w h ms") auto
  have "draw_labels E m w h (mk # ms)
      = (Rectangle (min (px + 10) (w - (b2 - b0) - 4) - 2,
                    max 4 (min (py - (b3 - b1) div 2) (h - (b3 - b1) - 4)) - 2,
                    min (px + 10) (w - (b2 - b0) - 4) + (b2 - b0) + 2,
                    max 4 (min (py - (b3 - b1) div 2) (h - (b3 - b1) - 4)) + (b3 - b1) + 2)
           # Text (min (px + 10) (w - (b2 - b0) - 4),
                   max 4 (min (py - (b3 - b1) div 2) (h - (b3 - b1) - 4))) (get_label mk) # evs, r)"
    using assms d by (simp add: label_origin_def label_box_def Let_def)
  then show ?thesis using d by (intro exI conjI) (assumption, assumption, simp_all)
qed

theorem label_layout_placement_witness:
  "\<exists>x y evs r.
      draw_labels mock_env \<lparr>width = 800, height = 600, tile_size = 256, zoom = 10,
         x_center = 512, y_center = 512\<rparr> 800 600 [] = (evs, r)
    \<and> draw_labels mock_env \<lparr>width = 800, height = 600, tile_size = 256, zoom = 10,
         x_center = 512, y_center = 512\<rparr> 800 600
         [\<lparr>mk_lon = Some 0, mk_lat = Some 0, mk_label = Some ''A''\<rparr>]
        = (Rectangle (x - 2, y - 2, x + (7 - 0) + 2, y + (10 - 0) + 2) # Text (x, y) ''A'' # evs, r)
    \<and> x = min (400 + 10) (800 - (7 - 0) - 4)
    \<and> y = max 4 (min (300 - (10 - 0) div 2) (600 - (10 - 0) - 4))"
proof -
  let ?m = "\<lparr>width = 800, height = 600, tile_size = 256, zoom = 10,
         x_center = 512, y_center = 512\<rparr>"
  let ?mk = "\<lparr>mk_lon = Some 0, mk_lat = Some 0, mk_label = Some ''A''\<rparr>"
  have h: "mk_lon ?mk = Some 0" "mk_lat ?mk = Some 0" "get_label ?mk \<noteq> []"
    "geo_to_pixel (c_lib mock_env) ?m 0 0 = Inr (400, 300)"
    "textbbox mock_env (get_label ?mk) = (0, 0, 7, 10)"
    by (simp_all add: get_label_def mock_env_def geo_defs rnd64_exact_values)
  have l: "get_label ?mk = ''A''" by (simp add: get_label_def)
  from label_layout_placement [OF h, of 800 600 "[]"] show ?thesis
    unfolding l by blast
qed

text \<open>
  C3 as stated fails for a text of odd height: with a text 11 pixels high at the marker
  pixel \<open>(400, 300)\<close> the text origin is \<open>y = 295\<close>, not \<open>300 - 11/2 = 294.5\<close>.
  It also fails for a text taller than the image: a text 20 pixels high in an image 10
  pixels high gets \<open>y = 4\<close>, above the upper end \<open>10 - 20 - 4\<close> of the interval.
\<close>

theorem label_floor_half_counterexample:
  "draw_labels (mock_env\<lparr>textbbox := \<lambda>s. (0, 0, 7, 11)\<rparr>)
       \<lparr>width = 800, height = 600, tile_size = 256, zoom = 10,
        x_center = 512, y_center = 512\<rparr> 800 600
       [\<lparr>mk_lon = Some 0, mk_lat = Some 0, mk_label = Some ''A''\<rparr>]
     = ([Rectangle (408, 293, 419, 308), Text (410, 295) ''A''], None)
   \<and> real_of_int 295 \<noteq> real_of_int 300 - real_of_int 11 / 2
   \<and> snd (label_origin 100 1000 50 20 800 10) = 4
   \<and> \<not> (4::int) \<le> 10 - 20 - 4"
  by (simp add: geo_defs rnd64_exact_values mock_env_def get_label_def
      label_origin_def label_box_def Let_def)

text \<open>
  C4 fails on the code. The route from longitude -135 to 135 in an image 100 pixels wide
  is drawn at zoom 0 around the tile centre \<open>(1/2, 1/2)\<close>; the marker at longitude -135
  projects to \<open>x = -46\<close>, and its label, 7 pixels wide, gets the rectangle from
  \<open>x = -38\<close> to \<open>x = -27\<close>, left of the image: line 89 caps the X coordinate from above
  only.
\<close>

theorem label_left_of_image:
  "render_route_map (mock_env\<lparr>map_render := \<lambda>t. Inr (0, 1 / 2, 1 / 2)\<rparr>)
       [[- 135, 0], [135, 0]] ''out.png''
       [\<lparr>mk_lon = Some (- 135), mk_lat = Some 0, mk_label = Some ''A''\<rparr>]
       100 100 ''black'' 3 ''osm''
     = ([New_map 100 100 ''https://a.tile.openstreetmap.org/{z}/{x}/{y}.png'',
         Add_line [(- 135, 0), (135, 0)] ''black'' 3, Add_marker (- 135) 0, Render,
         Rectangle (- 38, 43, - 27, 57), Text (- 36, 45) ''A'',
         Mkdir ''out.png'', Save ''out.png''], Inr ''out.png'')
   \<and> \<not> box_within (- 38, 43, - 27, 57) 100 100
   \<and> (- 27) - (- 38) \<le> (100::int)"
  by (simp add: render_route_map_def render_and_draw_def save_png_def mock_env_def tile_url_def
      BASEMAPS_def get_label_def Let_def geo_defs rnd64_exact_values
      label_origin_def label_box_def box_within_def)

text \<open>
  C10. The Y coordinate of the text origin is at least 4 whatever the marker and the
  text size, so the top of the rectangle is at least 2; when the text is too tall for the
  interval \<open>[4, h - th - 4]\<close> to have a point, the Y coordinate is 4.
\<close>

theorem label_y_at_least_margin:
  "4 \<le> snd (label_origin px py tw th w h)
   \<and> 2 \<le> fst (snd (label_box (label_origin px py tw th w h) tw th))
   \<and> (h - th - 4 < 4 \<longrightarrow> snd (label_origin px py tw th w h) = 4)"
  by (simp add: label_box_def label_origin_def Let_def)

theorem label_y_at_least_margin_witness:
  "snd (label_origin 100 1000 50 20 800 10) = 4
   \<and> fst (snd (label_box (label_origin 100 1000 50 20 800 10) 50 20)) = 2"
proof -
  from label_y_at_least_margin [of 100 1000 50 20 800 10]
  have "snd (label_origin 100 1000 50 20 800 10) = 4" by simp
  then show ?thesis by (simp add: label_box_def case_prod_beta)
qed


section \<open>Properties of the render operation\<close>

subsection \<open>Traces of the parts\<close>

lemma add_markers_append: "add_markers (xs @ ys) = add_markers xs @ add_markers ys"
  by (induction xs) (auto split: option.splits)

lemma draw_labels_skip:
  assumes "mk_lon mk = None \<or> mk_lat mk = None \<or> get_label mk = []"
  shows "draw_labels E m w h (ms1 @ mk # ms2) = draw_labels E m w h (ms1 @ ms2)"
  using assms
  by (induction ms1) (auto split: sum.splits prod.splits simp: Let_def)

lemma add_markers_skip:
  assumes "mk_lon mk = None \<or> mk_lat mk = None"
  shows "add_markers (ms1 @ mk # ms2) = add_markers (ms1 @ ms2)"
  using assms by (auto simp: add_markers_append split: option.splits)

lemma tile_url_Some: "\<exists>url. tile_url basemap = Some url"
  by (simp add: tile_url_def BASEMAPS_def split: option.splits)

lemma fst_save_png: "\<exists>r. fst (save_png E t p) = t @ r"
  by (simp add: save_png_def Let_def split: option.splits)

lemma fst_render_and_draw: "\<exists>r. fst (render_and_draw E t p ms w h) = t @ r"
proof (cases "map_render E t")
  case (Inl e)
  then show ?thesis by (simp add: render_and_draw_def)
next
  case (Inr v)
  obtain z xc yc where v: "v = (z, xc, yc)" by (cases v) auto
  let ?m = "\<lparr>width = w, height = h, tile_size = map_tile_size E,
                    zoom = z, x_center = xc, y_center = yc\<rparr>"
  obtain evs r where d: "draw_labels E ?m w h ms = (evs, r)" by (cases "draw_labels E ?m w h ms") auto
  show ?thesis
  proof (cases r)
    case None
    obtain q where "fst (save_png E (t @ [Render] @ evs) p) = (t @ [Render] @ evs) @ q"
      using fst_save_png by blast
    then show ?thesis using Inr v d None by (simp add: render_and_draw_def)
  next
    case (Some e)
    then show ?thesis using Inr v d by (simp add: render_and_draw_def)
  qed
qed

subsection \<open>Validation of the route\<close>

text \<open>
  C5. With fewer than two coordinates the operation returns, as an ordinary value, a
  string that starts with \<open>Error: \<close>; the trace is empty: no map object was made, nothing
  was rendered or drawn, no directory was created and no file was saved.
\<close>

theorem too_few_coordinates_is_error_value:
  assumes "length coordinates < 2"
  shows "\<exists>msg. render_route_map E coordinates output_path markers w h line_color line_width basemap
           = ([], Inr (''Error: '' @ msg))"
  using assms by (simp add: render_route_map_def)

theorem too_few_coordinates_is_error_value_witness:
  "\<exists>msg. render_route_map mock_env [[- 171 / 10, 281 / 10]] ''/tmp/nope.png'' [] 800 600 ''black'' 3 ''osm''
           = ([], Inr (''Error: '' @ msg))"
proof -
  have h: "length [[- 171 / 10, 281 / 10 :: real]] < 2" by simp
  from too_few_coordinates_is_error_value [OF h] show ?thesis .
qed

subsection \<open>Markers without a position or without a label\<close>

text \<open>
  C6. A marker whose \<open>lon\<close> or \<open>lat\<close> is missing changes nothing: the operation returns
  the same result and leaves the same trace as without that marker, wherever it stands in
  the list. A marker with a position and an absent or empty label adds its circle to the
  map in the first loop and adds nothing (no rectangle, no text, no exception) in the
  label loop.
\<close>

theorem markers_without_position_or_label:
  "(mk_lon mk = None \<or> mk_lat mk = None \<longrightarrow>
      render_route_map E coordinates output_path (ms1 @ mk # ms2) w h line_color line_width basemap
        = render_route_map E coordinates output_path (ms1 @ ms2) w h line_color line_width basemap)
   \<and> (mk_lon mk = Some lo \<and> mk_lat mk = Some la \<and> (mk_label mk = None \<or> mk_label mk = Some []) \<longrightarrow>
        add_markers (ms1 @ mk # ms2) = add_markers ms1 @ Add_marker lo la # add_markers ms2
      \<and> draw_labels E m w h (ms1 @ mk # ms2) = draw_labels E m w h (ms1 @ ms2))"
proof (intro conjI impI)
  assume a: "mk_lon mk = None \<or> mk_lat mk = None"
  then have am: "add_markers (ms1 @ mk # ms2) = add_markers (ms1 @ ms2)"
    by (rule add_markers_skip)
  have dl: "\<And>m. draw_labels E m w h (ms1 @ mk # ms2) = draw_labels E m w h (ms1 @ ms2)"
    using a by (intro draw_labels_skip) auto
  have r: "\<And>t. render_and_draw E (t @ add_markers (ms1 @ mk # ms2)) output_path (ms1 @ mk # ms2) w h
             = render_and_draw E (t @ add_markers (ms1 @ ms2)) output_path (ms1 @ ms2) w h"
    unfolding render_and_draw_def am dl ..
  show "render_route_map E coordinates output_path (ms1 @ mk # ms2) w h line_color line_width basemap
        = render_route_map E coordinates output_path (ms1 @ ms2) w h line_color line_width basemap"
    unfolding render_route_map_def r ..
next
  assume b: "mk_lon mk = Some lo \<and> mk_lat mk = Some la \<and> (mk_label mk = None \<or> mk_label mk = Some [])"
  then show "add_markers (ms1 @ mk # ms2) = add_markers ms1 @ Add_marker lo la # add_markers ms2"
    by (simp add: add_markers_append)
next
  assume b: "mk_lon mk = Some lo \<and> mk_lat mk = Some la \<and> (mk_label mk = None \<or> mk_label mk = Some [])"
  then have "get_label mk = []" by (auto simp: get_label_def)
  then show "draw_labels E m w h (ms1 @ mk # ms2) = draw_labels E m w h (ms1 @ ms2)"
    by (intro draw_labels_skip) simp
qed

theorem markers_without_position_or_label_witness:
  "render_route_map mock_env [[0, 0], [1, 1]] ''out.png''
       [\<lparr>mk_lon = None, mk_lat = Some 1, mk_label = Some ''A''\<rparr>,
        \<lparr>mk_lon = Some 0, mk_lat = Some 1, mk_label = None\<rparr>] 800 600 ''black'' 3 ''osm''
     = ([New_map 800 600 ''https://a.tile.openstreetmap.org/{z}/{x}/{y}.png'',
         Add_line [(0, 0), (1, 1)] ''black'' 3, Add_marker 0 1, Render,
         Mkdir ''out.png'', Save ''out.png''], Inr ''out.png'')
   \<and> add_markers [\<lparr>mk_lon = Some 0, mk_lat = Some 1, mk_label = Some ''''\<rparr>] = [Add_marker 0 1]
   \<and> draw_labels mock_env \<lparr>width = 800, height = 600, tile_size = 256, zoom = 10,
         x_center = 512, y_center = 512\<rparr> 800 600
         [\<lparr>mk_lon = Some 0, mk_lat = Some 1, mk_label = Some ''''\<rparr>]
       = ([], None)"
proof -
  let ?a = "\<lparr>mk_lon = None, mk_lat = Some 1, mk_label = Some ''A''\<rparr>"
  let ?b = "\<lparr>mk_lon = Some 0, mk_lat = Some 1, mk_label = None\<rparr>"
  let ?c = "\<lparr>mk_lon = Some 0, mk_lat = Some 1, mk_label = Some ''''\<rparr>"
  let ?m = "\<lparr>width = 800, height = 600, tile_size = 256, zoom = 10,
         x_center = 512, y_center = 512\<rparr>"
  have "render_route_map mock_env [[0, 0], [1, 1]] ''out.png'' ([] @ ?a # [?b]) 800 600 ''black'' 3 ''osm''
      = render_route_map mock_env [[0, 0], [1, 1]] ''out.png'' ([] @ [?b]) 800 600 ''black'' 3 ''osm''"
    using markers_without_position_or_label [of ?a mock_env "[[0, 0], [1, 1]]" "''out.png''" "[]" "[?b]"
        800 600 "''black''" 3 "''osm''"]
    by simp
  moreover have "render_route_map mock_env [[0, 0], [1, 1]] ''out.png'' [?b] 800 600 ''black'' 3 ''osm''
     = ([New_map 800 600 ''https://a.tile.openstreetmap.org/{z}/{x}/{y}.png'',
         Add_line [(0, 0), (1, 1)] ''black'' 3, Add_marker 0 1, Render,
         Mkdir ''out.png'', Save ''out.png''], Inr ''out.png'')"
    by (simp add: render_route_map_def render_and_draw_def save_png_def mock_env_def tile_url_def
        BASEMAPS_def get_label_def Let_def)
  moreover have "add_markers ([] @ ?c # []) = add_markers [] @ Add_marker 0 1 # add_markers []
      \<and> draw_labels mock_env ?m 800 600 ([] @ ?c # []) = draw_labels mock_env ?m 800 600 ([] @ [])"
    using markers_without_position_or_label [of ?c mock_env _ _ "[]" "[]" _ _ _ _ _ 0 1 ?m]
    by simp
  ultimately show ?thesis by simp
qed

text \<open>For comparison, a marker with a position and a label gets its rectangle and text.\<close>

lemma labelled_marker_is_drawn:
  "draw_labels mock_env \<lparr>width = 800, height = 600, tile_size = 256, zoom = 10,
         x_center = 512, y_center = 512\<rparr> 800 600
         [\<lparr>mk_lon = Some 0, mk_lat = Some 0, mk_label = Some ''A''\<rparr>]
     = ([Rectangle (408, 293, 419, 307), Text (410, 295) ''A''], None)"
  by (simp add: geo_defs rnd64_exact_values mock_env_def get_label_def
      label_origin_def label_box_def Let_def)

subsection \<open>The basemap\<close>

text \<open>
  C9. Each of the four names resolves to its template, any other name resolves to the
  template of \<open>osm\<close>, and for a route of at least two points the map object is built with
  the resolved template, whatever the name.
\<close>

theorem basemap_resolution:
  "tile_url ''osm'' = Some ''https://a.tile.openstreetmap.org/{z}/{x}/{y}.png''
   \<and> tile_url ''topo'' = Some ''https://tile.opentopomap.org/{z}/{x}/{y}.png''
   \<and> tile_url ''cycle'' = Some ''https://a.tile-cyclosm.openstreetmap.fr/cyclosm/{z}/{x}/{y}.png''
   \<and> tile_url ''humanitarian'' = Some ''https://a.tile.openstreetmap.fr/hot/{z}/{x}/{y}.png''
   \<and> (basemap \<notin> {''osm'', ''topo'', ''cycle'', ''humanitarian''} \<longrightarrow>
         tile_url basemap = Some ''https://a.tile.openstreetmap.org/{z}/{x}/{y}.png'')
   \<and> (2 \<le> length coordinates \<longrightarrow>
        (\<exists>url rest. tile_url basemap = Some url
           \<and> fst (render_route_map E coordinates output_path markers w h line_color line_width basemap)
               = New_map w h url # rest))"
proof (intro conjI impI)
  assume n: "2 \<le> length coordinates"
  obtain url where u: "tile_url basemap = Some url" using tile_url_Some by blast
  show "\<exists>url rest. tile_url basemap = Some url
           \<and> fst (render_route_map E coordinates output_path markers w h line_color line_width basemap)
               = New_map w h url # rest"
  proof (cases "line_coords coordinates")
    case (Inl e)
    then show ?thesis using n u by (simp add: render_route_map_def)
  next
    case (Inr lc)
    obtain r where "fst (render_and_draw E
        ([New_map w h url, Add_line lc line_color line_width] @ add_markers markers)
        output_path markers w h)
      = ([New_map w h url, Add_line lc line_color line_width] @ add_markers markers) @ r"
      using fst_render_and_draw by blast
    then show ?thesis using n u Inr by (simp add: render_route_map_def)
  qed
qed (simp_all add: tile_url_def BASEMAPS_def)

theorem basemap_resolution_witness:
  "tile_url ''satellite'' = Some ''https://a.tile.openstreetmap.org/{z}/{x}/{y}.png''
   \<and> (\<exists>url rest. tile_url ''satellite'' = Some url
         \<and> fst (render_route_map mock_env [[0, 0], [1, 1]] ''out.png'' [] 800 600 ''black'' 3 ''satellite'')
             = New_map 800 600 url # rest)"
proof -
  have h: "''satellite'' \<notin> {''osm'', ''topo'', ''cycle'', ''humanitarian''}"
    "2 \<le> length [[0, 0], [1, 1 :: real]]"
    by simp_all
  from basemap_resolution [of "''satellite''" "[[0, 0], [1, 1]]" mock_env "''out.png''" "[]"
      800 600 "''black''" 3]
  show ?thesis using h by blast
qed

end
